theory Spec2Isabelle
  imports Main "HOL-Library.Code_Target_Nat"
begin

section \<open>Python values\<close>

subsection \<open>Strings\<close>

text \<open>
  A Python \<^verbatim>\<open>str\<close> is a sequence of Unicode code points; it is modelled as the list of
  the code points. \<open>u\<close> turns an ASCII literal into such a list; a code point beyond ASCII
  is written as its number.
\<close>

type_synonym pystr = "nat list"

definition u :: "string \<Rightarrow> pystr" where
  "u cs = map of_char cs"

text \<open>\<^verbatim>\<open>str.isspace\<close> on one code point (the table of CPython's Unicode database).\<close>

definition isspace :: "nat \<Rightarrow> bool" where
  "isspace c = ((9 \<le> c \<and> c \<le> 13) \<or> (28 \<le> c \<and> c \<le> 32) \<or> c = 133 \<or> c = 160 \<or>
     c = 5760 \<or> (8192 \<le> c \<and> c \<le> 8202) \<or> c = 8232 \<or> c = 8233 \<or> c = 8239 \<or>
     c = 8287 \<or> c = 12288)"

text \<open>\<^verbatim>\<open>s.strip()\<close>: leading and trailing whitespace removed.\<close>

definition strip :: "pystr \<Rightarrow> pystr" where
  "strip s = rev (dropWhile isspace (rev (dropWhile isspace s)))"

text \<open>
  \<^verbatim>\<open>s.replace(old, new)\<close> for a pattern \<open>old\<close> of one character: every occurrence of the
  character gives way to \<open>new\<close>.
\<close>

definition replace :: "pystr \<Rightarrow> nat \<Rightarrow> pystr \<Rightarrow> pystr" where
  "replace s old new = concat (map (\<lambda>c. if c = old then new else [c]) s)"

text \<open>Truth value of a variable that holds \<^verbatim>\<open>None\<close> or a string: \<^verbatim>\<open>not v\<close>.\<close>

definition falsy :: "pystr option \<Rightarrow> bool" where
  "falsy v = (v = None \<or> v = Some [])"

subsection \<open>Exceptions\<close>

text \<open>
  An exception is its class and the text \<^verbatim>\<open>str(e)\<close>. Every class below derives from
  \<^verbatim>\<open>Exception\<close>, so \<^verbatim>\<open>except Exception\<close> catches each of them.
\<close>

datatype pyclass =
    Exception
  | ConnectionError
  | Timeout
  | HTTPError
  | AttributeError
  | ValueError
  | CalledProcessError
  | FileNotFoundError
  | OtherError pystr

datatype exn = Exn (cls: pyclass) (msg: pystr)

section \<open>The parsed document\<close>

text \<open>
  The tree that \<^verbatim>\<open>BeautifulSoup(r.text, 'html.parser')\<close> builds: a tag has a name, a
  dictionary of attributes (read by \<open>map_of\<close>) and its children in document order; the
  other nodes are strings. The soup itself is the list of the top-level nodes.
\<close>

datatype node =
    Tag (tag_name: pystr) (tag_attrs: "(pystr \<times> pystr) list") (tag_contents: "node list")
  | NavigableString pystr

type_synonym soup = "node list"

text \<open>The nodes below a node, in document order (the order in which \<^verbatim>\<open>find\<close> visits them).\<close>

fun descendants :: "node \<Rightarrow> node list" where
  "descendants (Tag n a cs) = concat (map (\<lambda>c. c # descendants c) cs)"
| "descendants (NavigableString s) = []"

definition soup_descendants :: "soup \<Rightarrow> node list" where
  "soup_descendants sp = concat (map (\<lambda>c. c # descendants c) sp)"

text \<open>
  \<^verbatim>\<open>soup.find(nm, attrs=want)\<close>: the first tag in document order with that name, each
  wanted attribute present with exactly the wanted value. \<^verbatim>\<open>soup.title\<close> is
  \<^verbatim>\<open>soup.find("title")\<close>.
\<close>

definition matches :: "pystr \<Rightarrow> (pystr \<times> pystr) list \<Rightarrow> node \<Rightarrow> bool" where
  "matches nm want n =
     (case n of
        NavigableString s \<Rightarrow> False
      | Tag nm' as cs \<Rightarrow> nm' = nm \<and> list_all (\<lambda>(k, v). map_of as k = Some v) want)"

definition find_tag :: "soup \<Rightarrow> pystr \<Rightarrow> (pystr \<times> pystr) list \<Rightarrow> node option" where
  "find_tag sp nm want = List.find (matches nm want) (soup_descendants sp)"

text \<open>\<^verbatim>\<open>tag.get(key)\<close> and \<^verbatim>\<open>tag.get(key, default)\<close>.\<close>

definition get :: "node \<Rightarrow> pystr \<Rightarrow> pystr option" where
  "get t key = (case t of Tag n as cs \<Rightarrow> map_of as key | NavigableString s \<Rightarrow> None)"

definition get_default :: "node \<Rightarrow> pystr \<Rightarrow> pystr \<Rightarrow> pystr" where
  "get_default t key d = (case get t key of Some v \<Rightarrow> v | None \<Rightarrow> d)"

text \<open>
  \<^verbatim>\<open>tag.string\<close>: the single child when it is a string, the \<^verbatim>\<open>.string\<close> of the single
  child when it is a tag, \<^verbatim>\<open>None\<close> when the tag has no child or several.
\<close>

fun string_of :: "node \<Rightarrow> pystr option" where
  "string_of (Tag n a [NavigableString s]) = Some s"
| "string_of (Tag n a [Tag n' a' cs]) = string_of (Tag n' a' cs)"
| "string_of t = None"

section \<open>MetadataExtractor.extract\<close>

text \<open>
  What \<^verbatim>\<open>requests.get\<close> returns when it does not raise: the status code, the text that
  \<^verbatim>\<open>raise_for_status\<close> puts into its \<^verbatim>\<open>HTTPError\<close>, and what parsing the body gives
  (the tree, or the exception the parser raised).
\<close>

record response =
  status_code :: nat
  http_error_msg :: pystr
  parsed :: "exn + soup"

text \<open>\<^verbatim>\<open>r.raise_for_status()\<close> raises for the statuses 400 to 599 and for no other.\<close>

definition raise_for_status :: "response \<Rightarrow> exn + unit" where
  "raise_for_status r =
     (if 400 \<le> status_code r \<and> status_code r < 600
      then Inl (Exn HTTPError (http_error_msg r)) else Inr ())"

definition sin_titulo :: pystr where
  "sin_titulo = u ''Sin t'' @ [237] @ u ''tulo''"

definition sin_descripcion :: pystr where
  "sin_descripcion = u ''Sin descripci'' @ [243] @ u ''n''"

text \<open>\<^verbatim>\<open>None.strip()\<close>: the attribute lookup on \<^verbatim>\<open>None\<close> raises.\<close>

definition none_has_no_strip :: exn where
  "none_has_no_strip =
     Exn AttributeError
       ([39] @ u ''NoneType'' @ [39] @ u '' object has no attribute '' @ [39] @ u ''strip'' @ [39])"

text \<open>The block under \<^verbatim>\<open># T\<close>\<open>\<dots>\<close>\<^verbatim>\<open>tulo\<close>: the value of \<^verbatim>\<open>title\<close> after it, or the exception.\<close>

definition extract_title :: "soup \<Rightarrow> exn + pystr" where
  "extract_title sp =
     (let og_title = find_tag sp (u ''meta'') [(u ''property'', u ''og:title'')];
          title = (case og_title of
                     Some t \<Rightarrow> Some (strip (get_default t (u ''content'') []))
                   | None \<Rightarrow> None)
      in case (if falsy title then find_tag sp (u ''title'') [] else None) of
           Some soup_title \<Rightarrow>
             (case string_of soup_title of
                None \<Rightarrow> Inl none_has_no_strip
              | Some s \<Rightarrow> Inr (if strip s = [] then sin_titulo else strip s))
         | None \<Rightarrow>
             Inr (case title of
                    None \<Rightarrow> sin_titulo
                  | Some t \<Rightarrow> if t = [] then sin_titulo else t))"

text \<open>The block under \<^verbatim>\<open># Descripci\<close>\<open>\<dots>\<close>\<^verbatim>\<open>n\<close>: it raises nothing.\<close>

definition extract_desc :: "soup \<Rightarrow> pystr" where
  "extract_desc sp =
     (let og_desc = find_tag sp (u ''meta'') [(u ''property'', u ''og:description'')];
          desc = (case og_desc of
                    Some t \<Rightarrow> Some (strip (get_default t (u ''content'') []))
                  | None \<Rightarrow> None);
          desc' = (if falsy desc
                   then (case find_tag sp (u ''meta'') [(u ''name'', u ''description'')] of
                           Some meta_desc \<Rightarrow> Some (strip (get_default meta_desc (u ''content'') []))
                         | None \<Rightarrow> desc)
                   else desc)
      in case desc' of
           None \<Rightarrow> sin_descripcion
         | Some d \<Rightarrow> if d = [] then sin_descripcion else d)"

text \<open>
  The block under \<^verbatim>\<open># Imagen\<close>. \<open>urljoin\<close> is \<^verbatim>\<open>urllib.parse.urljoin\<close>, which returns a
  string or raises; the block is stated for any such function.
\<close>

definition extract_img :: "(pystr \<Rightarrow> pystr \<Rightarrow> exn + pystr) \<Rightarrow> pystr \<Rightarrow> soup \<Rightarrow> exn + pystr" where
  "extract_img urljoin url sp =
     (let og_img = find_tag sp (u ''meta'') [(u ''property'', u ''og:image'')];
          img = (case og_img of
                   Some t \<Rightarrow> strip (get_default t (u ''content'') [])
                 | None \<Rightarrow> [])
      in if img = []
         then (case find_tag sp (u ''img'') [] of
                 Some first_img \<Rightarrow>
                   (case get first_img (u ''src'') of
                      Some src \<Rightarrow> if src \<noteq> [] then urljoin url src else Inr img
                    | None \<Rightarrow> Inr img)
               | None \<Rightarrow> Inr img)
         else Inr img)"

text \<open>
  The body of the \<^verbatim>\<open>try\<close>. \<open>http_get\<close> is
  \<^verbatim>\<open>requests.get(\<close>\<open>\<cdot>\<close>\<^verbatim>\<open>, headers=HEADERS, timeout=10)\<close>: it raises (no connection, time-out,
  \<open>\<dots>\<close>) or returns a response.
\<close>

definition extract_body ::
  "(pystr \<Rightarrow> pystr \<Rightarrow> exn + pystr) \<Rightarrow> (pystr \<Rightarrow> exn + response) \<Rightarrow> pystr
     \<Rightarrow> exn + (pystr \<times> pystr \<times> pystr)" where
  "extract_body urljoin http_get url =
     (case http_get url of
        Inl e \<Rightarrow> Inl e
      | Inr r \<Rightarrow>
          (case raise_for_status r of
             Inl e \<Rightarrow> Inl e
           | Inr ok \<Rightarrow>
               (case parsed r of
                  Inl e \<Rightarrow> Inl e
                | Inr sp \<Rightarrow>
                    (case extract_title sp of
                       Inl e \<Rightarrow> Inl e
                     | Inr title \<Rightarrow>
                         (case extract_img urljoin url sp of
                            Inl e \<Rightarrow> Inl e
                          | Inr img \<Rightarrow> Inr (title, extract_desc sp, img))))))"

text \<open>
  \<^verbatim>\<open>except Exception as e: raise Exception(f"Error extrayendo metadata: {e}")\<close>: whatever
  the body raised leaves as a plain \<^verbatim>\<open>Exception\<close> that keeps the text only. The method
  carries the name of its class here, \<^verbatim>\<open>extract\<close> alone being a command of Isabelle.
\<close>

definition MetadataExtractor_extract ::
  "(pystr \<Rightarrow> pystr \<Rightarrow> exn + pystr) \<Rightarrow> (pystr \<Rightarrow> exn + response) \<Rightarrow> pystr
     \<Rightarrow> exn + (pystr \<times> pystr \<times> pystr)" where
  "MetadataExtractor_extract urljoin http_get url =
     (case extract_body urljoin http_get url of
        Inl e \<Rightarrow> Inl (Exn Exception (u ''Error extrayendo metadata: '' @ msg e))
      | Inr res \<Rightarrow> Inr res)"

section \<open>urllib.parse.urljoin\<close>

text \<open>
  \<^verbatim>\<open>urljoin\<close> is library code; the definitions below follow \<^verbatim>\<open>urllib/parse.py\<close> of
  CPython 3.11 for \<^verbatim>\<open>str\<close> arguments, statement by statement. Two checks of a host consult
  tables that are not part of it: \<^verbatim>\<open>_check_bracketed_host\<close> (a regular expression and the
  \<^verbatim>\<open>ipaddress\<close> module) and the NFKC normalisation in \<^verbatim>\<open>_checknetloc\<close>. They are the two
  fields of \<open>hostlib\<close>; neither is consulted for a host that is ASCII and has no bracket.
\<close>

record hostlib =
  check_bracketed_host :: "pystr \<Rightarrow> exn option"
  nfkc :: "pystr \<Rightarrow> pystr"

definition uses_relative :: "pystr list" where
  "uses_relative = map u ['''', ''ftp'', ''http'', ''gopher'', ''nntp'', ''imap'', ''wais'',
     ''file'', ''https'', ''shttp'', ''mms'', ''prospero'', ''rtsp'', ''rtsps'', ''rtspu'',
     ''sftp'', ''svn'', ''svn+ssh'', ''ws'', ''wss'']"

definition uses_netloc :: "pystr list" where
  "uses_netloc = map u ['''', ''ftp'', ''http'', ''gopher'', ''nntp'', ''telnet'', ''imap'',
     ''wais'', ''file'', ''mms'', ''https'', ''shttp'', ''snews'', ''prospero'', ''rtsp'',
     ''rtsps'', ''rtspu'', ''rsync'', ''svn'', ''svn+ssh'', ''sftp'', ''nfs'', ''git'',
     ''git+ssh'', ''ws'', ''wss'']"

definition uses_params :: "pystr list" where
  "uses_params = map u ['''', ''ftp'', ''hdl'', ''prospero'', ''http'', ''imap'', ''https'',
     ''shttp'', ''rtsp'', ''rtsps'', ''rtspu'', ''sip'', ''sips'', ''mms'', ''sftp'', ''tel'']"

definition scheme_chars :: "nat \<Rightarrow> bool" where
  "scheme_chars c = ((97 \<le> c \<and> c \<le> 122) \<or> (65 \<le> c \<and> c \<le> 90) \<or> (48 \<le> c \<and> c \<le> 57) \<or>
     c = 43 \<or> c = 45 \<or> c = 46)"

definition ascii_alpha :: "nat \<Rightarrow> bool" where
  "ascii_alpha c = ((97 \<le> c \<and> c \<le> 122) \<or> (65 \<le> c \<and> c \<le> 90))"

text \<open>\<^verbatim>\<open>s.lower()\<close>, applied to scheme characters only.\<close>

definition lower :: "pystr \<Rightarrow> pystr" where
  "lower s = map (\<lambda>c. if 65 \<le> c \<and> c \<le> 90 then c + 32 else c) s"

text \<open>The two halves of \<^verbatim>\<open>s.split(c, 1)\<close> for a string that contains \<open>c\<close>.\<close>

definition before :: "nat \<Rightarrow> pystr \<Rightarrow> pystr" where
  "before c s = takeWhile (\<lambda>x. x \<noteq> c) s"

definition after :: "nat \<Rightarrow> pystr \<Rightarrow> pystr" where
  "after c s = drop 1 (dropWhile (\<lambda>x. x \<noteq> c) s)"

text \<open>\<^verbatim>\<open>s.split(c)\<close> and \<^verbatim>\<open>c.join(parts)\<close> for a separator of one character.\<close>

fun split :: "nat \<Rightarrow> pystr \<Rightarrow> pystr list" where
  "split c [] = [[]]"
| "split c (x # xs) =
     (if x = c then [] # split c xs
      else (case split c xs of [] \<Rightarrow> [[x]] | p # ps \<Rightarrow> (x # p) # ps))"

fun join :: "nat \<Rightarrow> pystr list \<Rightarrow> pystr" where
  "join c [] = []"
| "join c [p] = p"
| "join c (p # q # ps) = p @ c # join c (q # ps)"

definition checknetloc :: "hostlib \<Rightarrow> pystr \<Rightarrow> exn option" where
  "checknetloc lib netloc =
     (if netloc = [] \<or> list_all (\<lambda>c. c < 128) netloc then None
      else
        (let n = filter (\<lambda>c. c \<noteq> 64 \<and> c \<noteq> 58 \<and> c \<noteq> 35 \<and> c \<noteq> 63) netloc;
             netloc2 = nfkc lib n
         in if n = netloc2 then None
            else if list_ex (\<lambda>c. c = 47 \<or> c = 63 \<or> c = 35 \<or> c = 64 \<or> c = 58) netloc2
            then Some (Exn ValueError
                   (u ''netloc '' @ [39] @ netloc @ [39] @
                    u '' contains invalid characters under NFKC normalization''))
            else None))"

text \<open>The end of \<^verbatim>\<open>urlsplit\<close>, from the fragment on.\<close>

definition urlsplit_rest ::
  "hostlib \<Rightarrow> pystr \<Rightarrow> pystr \<Rightarrow> pystr \<Rightarrow> exn + (pystr \<times> pystr \<times> pystr \<times> pystr \<times> pystr)" where
  "urlsplit_rest lib scheme netloc url =
     (let fragment = (if 35 \<in> set url then after 35 url else []);
          url1 = (if 35 \<in> set url then before 35 url else url);
          query = (if 63 \<in> set url1 then after 63 url1 else []);
          url2 = (if 63 \<in> set url1 then before 63 url1 else url1)
      in case checknetloc lib netloc of
           Some e \<Rightarrow> Inl e
         | None \<Rightarrow> Inr (scheme, netloc, url2, query, fragment))"

definition urlsplit ::
  "hostlib \<Rightarrow> pystr \<Rightarrow> pystr \<Rightarrow> exn + (pystr \<times> pystr \<times> pystr \<times> pystr \<times> pystr)" where
  "urlsplit lib url0 scheme0 =
     (let unsafe = (\<lambda>c. c = 9 \<or> c = 13 \<or> c = 10);
          c0 = (\<lambda>c::nat. c \<le> 32);
          url = filter (\<lambda>c. \<not> unsafe c) (dropWhile c0 url0);
          scheme = filter (\<lambda>c. \<not> unsafe c) (rev (dropWhile c0 (rev (dropWhile c0 scheme0))));
          found = (58 \<in> set url \<and> before 58 url \<noteq> [] \<and> ascii_alpha (hd url) \<and>
                   list_all scheme_chars (before 58 url));
          scheme1 = (if found then lower (before 58 url) else scheme);
          url1 = (if found then after 58 url else url)
      in if take 2 url1 = [47, 47]
         then
           (let delim = (\<lambda>c. c = 47 \<or> c = 63 \<or> c = 35);
                netloc = takeWhile (\<lambda>c. \<not> delim c) (drop 2 url1);
                url2 = dropWhile (\<lambda>c. \<not> delim c) (drop 2 url1)
            in if (91 \<in> set netloc \<and> 93 \<notin> set netloc) \<or> (93 \<in> set netloc \<and> 91 \<notin> set netloc)
               then Inl (Exn ValueError (u ''Invalid IPv6 URL''))
               else
                 (case (if 91 \<in> set netloc \<and> 93 \<in> set netloc
                        then check_bracketed_host lib (before 93 (after 91 netloc))
                        else None) of
                    Some e \<Rightarrow> Inl e
                  | None \<Rightarrow> urlsplit_rest lib scheme1 netloc url2))
         else urlsplit_rest lib scheme1 [] url1)"

definition splitparams :: "pystr \<Rightarrow> pystr \<times> pystr" where
  "splitparams url =
     (if 47 \<in> set url
      then
        (let tail = rev (takeWhile (\<lambda>c. c \<noteq> 47) (rev url));
             head = take (length url - length tail) url
         in if 59 \<in> set tail then (head @ before 59 tail, after 59 tail) else (url, []))
      else (before 59 url, after 59 url))"

definition urlparse ::
  "hostlib \<Rightarrow> pystr \<Rightarrow> pystr
     \<Rightarrow> exn + (pystr \<times> pystr \<times> pystr \<times> pystr \<times> pystr \<times> pystr)" where
  "urlparse lib url scheme0 =
     (case urlsplit lib url scheme0 of
        Inl e \<Rightarrow> Inl e
      | Inr (scheme, netloc, url1, query, fragment) \<Rightarrow>
          (if scheme \<in> set uses_params \<and> 59 \<in> set url1
           then Inr (scheme, netloc, fst (splitparams url1), snd (splitparams url1), query, fragment)
           else Inr (scheme, netloc, url1, [], query, fragment)))"

definition urlunsplit :: "pystr \<Rightarrow> pystr \<Rightarrow> pystr \<Rightarrow> pystr \<Rightarrow> pystr \<Rightarrow> pystr" where
  "urlunsplit scheme netloc url query fragment =
     (let url1 = (if netloc \<noteq> [] \<or> (scheme \<noteq> [] \<and> scheme \<in> set uses_netloc) \<or> take 2 url = [47, 47]
                  then [47, 47] @ netloc @ (if url \<noteq> [] \<and> take 1 url \<noteq> [47] then 47 # url else url)
                  else url);
          url2 = (if scheme \<noteq> [] then scheme @ [58] @ url1 else url1);
          url3 = (if query \<noteq> [] then url2 @ [63] @ query else url2)
      in if fragment \<noteq> [] then url3 @ [35] @ fragment else url3)"

definition urlunparse :: "pystr \<Rightarrow> pystr \<Rightarrow> pystr \<Rightarrow> pystr \<Rightarrow> pystr \<Rightarrow> pystr \<Rightarrow> pystr" where
  "urlunparse scheme netloc url params query fragment =
     urlunsplit scheme netloc (if params \<noteq> [] then url @ [59] @ params else url) query fragment"

text \<open>The loop of \<^verbatim>\<open>urljoin\<close> over the segments of the path.\<close>

definition resolve_seg :: "pystr list \<Rightarrow> pystr \<Rightarrow> pystr list" where
  "resolve_seg resolved_path seg =
     (if seg = u ''..'' then butlast resolved_path
      else if seg = u ''.'' then resolved_path
      else resolved_path @ [seg])"

text \<open>\<^verbatim>\<open>segments[1:-1] = filter(None, segments[1:-1])\<close>.\<close>

definition drop_empty_inner :: "pystr list \<Rightarrow> pystr list" where
  "drop_empty_inner segments =
     (if length segments < 2 then segments
      else hd segments # filter (\<lambda>p. p \<noteq> []) (butlast (tl segments)) @ [last segments])"

definition urljoin :: "hostlib \<Rightarrow> pystr \<Rightarrow> pystr \<Rightarrow> exn + pystr" where
  "urljoin lib base url =
     (if base = [] then Inr url
      else if url = [] then Inr base
      else
        (case urlparse lib base [] of
           Inl e \<Rightarrow> Inl e
         | Inr (bscheme, bnetloc, bpath, bparams, bquery, bfragment) \<Rightarrow>
             (case urlparse lib url bscheme of
                Inl e \<Rightarrow> Inl e
              | Inr (scheme, netloc, path, params, query, fragment) \<Rightarrow>
                  (if scheme \<noteq> bscheme \<or> scheme \<notin> set uses_relative then Inr url
                   else if scheme \<in> set uses_netloc \<and> netloc \<noteq> []
                   then Inr (urlunparse scheme netloc path params query fragment)
                   else
                     (let netloc1 = (if scheme \<in> set uses_netloc then bnetloc else netloc)
                      in if path = [] \<and> params = []
                         then Inr (urlunparse scheme netloc1 bpath bparams
                                     (if query = [] then bquery else query) fragment)
                         else
                           (let base_parts = split 47 bpath;
                                base_parts1 = (if last base_parts \<noteq> [] then butlast base_parts
                                               else base_parts);
                                segments = (if take 1 path = [47] then split 47 path
                                            else drop_empty_inner (base_parts1 @ split 47 path));
                                resolved_path = foldl resolve_seg [] segments;
                                resolved_path1 =
                                  (if last segments = u ''.'' \<or> last segments = u ''..''
                                   then resolved_path @ [[]] else resolved_path);
                                joined = join 47 resolved_path1
                            in Inr (urlunparse scheme netloc1
                                      (if joined = [] then [47] else joined)
                                      params query fragment)))))))"

text \<open>
  The library for hosts that are ASCII without brackets, as in every example below: no
  bracketed host is accepted and normalisation changes nothing.
\<close>

definition plain_hosts :: hostlib where
  "plain_hosts =
     \<lparr>check_bracketed_host = (\<lambda>h. Some (Exn ValueError (u ''Invalid IPv6 URL''))),
      nfkc = (\<lambda>n. n)\<rparr>"

section \<open>generate_html\<close>

text \<open>
  The f-string of \<^verbatim>\<open>generate_html\<close>, one entry for each line of it; \<open>title\<close> and \<open>desc\<close>
  are the strings after the two \<^verbatim>\<open>replace\<close> statements.
\<close>

definition page :: "pystr \<Rightarrow> pystr \<Rightarrow> pystr \<Rightarrow> pystr \<Rightarrow> pystr \<Rightarrow> pystr" where
  \<open>page visible_url redirect_url title desc img =
     join 10
       [u ''<!DOCTYPE html>'',
        u ''<html lang="es">'',
        u ''<head>'',
        u ''    <meta charset="UTF-8">'',
        u ''    <meta name="viewport" content="width=device-width, initial-scale=1.0">'',
        u ''    <title>'' @ title @ u ''</title>'',
        u ''    <meta name="description" content="'' @ desc @ u ''">'',
        u ''    '',
        u ''    <!-- Open Graph -->'',
        u ''    <meta property="og:type" content="website">'',
        u ''    <meta property="og:url" content="'' @ visible_url @ u ''">'',
        u ''    <meta property="og:title" content="'' @ title @ u ''">'',
        u ''    <meta property="og:description" content="'' @ desc @ u ''">'',
        u ''    <meta property="og:image" content="'' @ img @ u ''">'',
        u ''    <meta property="og:image:width" content="1200">'',
        u ''    <meta property="og:image:height" content="630">'',
        u ''    '',
        u ''    <!-- Twitter Card -->'',
        u ''    <meta name="twitter:card" content="summary_large_image">'',
        u ''    <meta name="twitter:title" content="'' @ title @ u ''">'',
        u ''    <meta name="twitter:description" content="'' @ desc @ u ''">'',
        u ''    <meta name="twitter:image" content="'' @ img @ u ''">'',
        u ''    '',
        u ''    <!-- Redirecci'' @ [243] @ u ''n -->'',
        u ''    <meta http-equiv="refresh" content="0;url='' @ redirect_url @ u ''">'',
        u ''    <script>window.location.href = "'' @ redirect_url @ u ''";</script>'',
        u ''    '',
        u ''    <style>'',
        u ''        body {'',
        u ''            margin: 0;'',
        u ''            padding: 0;'',
        u ''            font-family: -apple-system, BlinkMacSystemFont, "Segoe UI", Roboto, sans-serif;'',
        u ''            display: flex;'',
        u ''            align-items: center;'',
        u ''            justify-content: center;'',
        u ''            min-height: 100vh;'',
        u ''            background: linear-gradient(135deg, #667eea 0%, #764ba2 100%);'',
        u ''            color: white;'',
        u ''        }'',
        u ''        .container {'',
        u ''            text-align: center;'',
        u ''            padding: 2rem;'',
        u ''        }'',
        u ''        .spinner {'',
        u ''            border: 3px solid rgba(255,255,255,0.3);'',
        u ''            border-top: 3px solid white;'',
        u ''            border-radius: 50%;'',
        u ''            width: 50px;'',
        u ''            height: 50px;'',
        u ''            animation: spin 0.8s linear infinite;'',
        u ''            margin: 0 auto 1.5rem;'',
        u ''        }'',
        u ''        @keyframes spin {'',
        u ''            to { transform: rotate(360deg); }'',
        u ''        }'',
        u ''        h1 {'',
        u ''            font-size: 1.5rem;'',
        u ''            margin: 0 0 1rem;'',
        u ''            font-weight: 600;'',
        u ''        }'',
        u ''        p {'',
        u ''            opacity: 0.9;'',
        u ''            margin: 0.5rem 0;'',
        u ''        }'',
        u ''        a {'',
        u ''            color: white;'',
        u ''            text-decoration: underline;'',
        u ''        }'',
        u ''    </style>'',
        u ''</head>'',
        u ''<body>'',
        u ''    <div class="container">'',
        u ''        <div class="spinner"></div>'',
        u ''        <h1>Redirigiendo...</h1>'',
        u ''        <p>Ser'' @ [225] @ u ''s redirigido autom'' @ [225] @ u ''ticamente</p>'',
        u ''        <p><a href="'' @ redirect_url @ u ''">O haz clic aqu'' @ [237] @ u ''</a></p>'',
        u ''    </div>'',
        u ''</body>'',
        u ''</html>'']\<close>

definition generate_html :: "pystr \<Rightarrow> pystr \<Rightarrow> pystr \<Rightarrow> pystr \<Rightarrow> pystr \<Rightarrow> pystr" where
  "generate_html visible_url redirect_url title desc img =
     (let title1 = replace (replace title 34 (u ''&quot;'')) 39 (u ''&#39;'');
          desc1 = replace (replace desc 34 (u ''&quot;'')) 39 (u ''&#39;'')
      in page visible_url redirect_url title1 desc1 img)"

section \<open>git_push_to_github\<close>

text \<open>
  What the four \<^verbatim>\<open>subprocess.run(\<close>\<open>\<dots>\<close>\<^verbatim>\<open>, check=True)\<close> calls do, in the order of the source:
  each raises (\<^verbatim>\<open>CalledProcessError\<close> for a non-zero exit status, another exception when
  the program cannot be started) or returns; the status call returns the captured output.
\<close>

record git =
  git_add :: "exn + unit"
  git_status :: "exn + pystr"
  git_commit :: "pystr \<Rightarrow> exn + unit"
  git_push :: "exn + unit"

text \<open>The strings that the function prints.\<close>

definition subiendo :: pystr where
  "subiendo = [10, 128228] @ u '' Subiendo a GitHub...''"

definition no_hay_cambios :: pystr where
  "no_hay_cambios = [9888, 65039] @ u ''  No hay cambios para subir''"

definition subido :: "pystr list" where
  "subido =
     [[9989] @ u '' C'' @ [243] @ u ''digo subido a GitHub exitosamente'',
      [128640] @ u '' Netlify desplegar'' @ [225] @ u '' autom'' @ [225] @
        u ''ticamente en ~30 segundos'']"

definition error_con_git :: "exn \<Rightarrow> pystr list" where
  "error_con_git e =
     [[10060] @ u '' Error con Git: '' @ msg e,
      [10, 128161] @ u '' Aseg'' @ [250] @ u ''rate de:'',
      u ''   1. Tener configurado Git: git config --global user.name '' @ [39] @
        u ''Tu Nombre'' @ [39],
      u ''   2. Estar en un repo: git init'',
      u ''   3. Tener un remote: git remote add origin URL'']"

text \<open>
  The \<^verbatim>\<open>except subprocess.CalledProcessError\<close> clause, entered with the lines printed so
  far: it prints the advice and returns \<^verbatim>\<open>False\<close>; any other exception leaves the function.
\<close>

definition git_error :: "pystr list \<Rightarrow> exn \<Rightarrow> pystr list \<times> (exn + bool)" where
  "git_error printed e =
     (if cls e = CalledProcessError then (printed @ error_con_git e, Inr False)
      else (printed, Inl e))"

text \<open>The result is the list of the printed strings and the value returned or the exception.\<close>

definition git_push_to_github :: "git \<Rightarrow> pystr \<Rightarrow> pystr list \<times> (exn + bool)" where
  "git_push_to_github g commit_message =
     (let printed = [subiendo]
      in case git_add g of
           Inl e \<Rightarrow> git_error printed e
         | Inr added \<Rightarrow>
             (case git_status g of
                Inl e \<Rightarrow> git_error printed e
              | Inr stdout \<Rightarrow>
                  (if strip stdout = [] then (printed @ [no_hay_cambios], Inr False)
                   else
                     (case git_commit g commit_message of
                        Inl e \<Rightarrow> git_error printed e
                      | Inr committed \<Rightarrow>
                          (case git_push g of
                             Inl e \<Rightarrow> git_error printed e
                           | Inr pushed \<Rightarrow> (printed @ subido, Inr True))))))"

section \<open>load_config\<close>

text \<open>
  The state of \<^verbatim>\<open>.link_config.json\<close>: whether \<^verbatim>\<open>os.path.exists\<close> finds it, and what
  opening and reading it gives. \<open>json_load\<close> is the JSON parser: it raises or returns a
  value, \<open>None\<close> for the JSON \<^verbatim>\<open>null\<close> (Python's \<^verbatim>\<open>None\<close>).
\<close>

record config_file =
  path_exists :: bool
  opened :: "exn + pystr"

text \<open>
  The body of the \<^verbatim>\<open>try\<close>: \<open>Inr (Some v)\<close> when it reaches \<^verbatim>\<open>return json.load(f)\<close>,
  \<open>Inr None\<close> when it falls through.
\<close>

definition load_config_body :: "(pystr \<Rightarrow> exn + 'j option) \<Rightarrow> config_file \<Rightarrow> exn + 'j option option" where
  "load_config_body json_load f =
     (if path_exists f
      then (case opened f of
              Inl e \<Rightarrow> Inl e
            | Inr text \<Rightarrow>
                (case json_load text of
                   Inl e \<Rightarrow> Inl e
                 | Inr v \<Rightarrow> Inr (Some v)))
      else Inr None)"

text \<open>The bare \<^verbatim>\<open>except: pass\<close> and the final \<^verbatim>\<open>return None\<close>.\<close>

definition load_config :: "(pystr \<Rightarrow> exn + 'j option) \<Rightarrow> config_file \<Rightarrow> exn + 'j option" where
  "load_config json_load f =
     (case load_config_body json_load f of
        Inl e \<Rightarrow> Inr None
      | Inr (Some v) \<Rightarrow> Inr v
      | Inr None \<Rightarrow> Inr None)"

section \<open>The rules in the words of the specification\<close>

text \<open>
  The trimmed \<^verbatim>\<open>content\<close> of the first \<^verbatim>\<open>meta\<close> tag that carries the attribute, when
  there is one.
\<close>

definition meta_content :: "soup \<Rightarrow> pystr \<Rightarrow> pystr \<Rightarrow> pystr option" where
  "meta_content sp key val =
     map_option (\<lambda>t. strip (get_default t (u ''content'') []))
       (find_tag sp (u ''meta'') [(key, val)])"


text \<open>The \<^verbatim>\<open>src\<close> attribute of the first \<^verbatim>\<open>img\<close> element, as written in the page.\<close>

definition first_img_src :: "soup \<Rightarrow> pystr option" where
  "first_img_src sp =
     (case find_tag sp (u ''img'') [] of
        Some t \<Rightarrow> get t (u ''src'')
      | None \<Rightarrow> None)"

text \<open>
  An ordered list of sources, evaluated in sequence, stopping at the first non-empty match;
  the default when there is none.
\<close>

fun first_nonempty :: "pystr option list \<Rightarrow> pystr \<Rightarrow> pystr" where
  "first_nonempty [] d = d"
| "first_nonempty (None # srcs) d = first_nonempty srcs d"
| "first_nonempty (Some v # srcs) d = (if v = [] then first_nonempty srcs d else v)"

text \<open>
  Description: the \<^verbatim>\<open>og:description\<close> content, trimmed, if non-empty; otherwise the
  \<^verbatim>\<open>name="description"\<close> content, trimmed, if non-empty; otherwise the default.
\<close>

definition description_rule :: "soup \<Rightarrow> pystr" where
  "description_rule sp =
     first_nonempty
       [meta_content sp (u ''property'') (u ''og:description''),
        meta_content sp (u ''name'') (u ''description'')]
       sin_descripcion"

text \<open>The HTML entity for a quote character; any other character stands for itself.\<close>

definition html_entity :: "nat \<Rightarrow> pystr" where
  "html_entity c = (if c = 34 then u ''&quot;'' else if c = 39 then u ''&#39;'' else [c])"

text \<open>
  Image: the \<^verbatim>\<open>og:image\<close> content; then the \<^verbatim>\<open>src\<close> of the first \<^verbatim>\<open>img\<close> element,
  resolved against the URL of the page by \<open>uj\<close>; the empty string when neither is there.
\<close>

definition resolved_img :: "(pystr \<Rightarrow> pystr \<Rightarrow> exn + pystr) \<Rightarrow> pystr \<Rightarrow> soup \<Rightarrow> exn + pystr" where
  "resolved_img uj url sp =
     (case first_img_src sp of
        Some src \<Rightarrow> if src = [] then Inr [] else uj url src
      | None \<Rightarrow> Inr [])"

definition image_rule :: "(pystr \<Rightarrow> pystr \<Rightarrow> exn + pystr) \<Rightarrow> pystr \<Rightarrow> soup \<Rightarrow> exn + pystr" where
  "image_rule uj url sp =
     (case meta_content sp (u ''property'') (u ''og:image'') of
        Some c \<Rightarrow> if c = [] then resolved_img uj url sp else Inr c
      | None \<Rightarrow> resolved_img uj url sp)"

text \<open>An absolute URL starts with a scheme: a letter, then scheme characters, then a colon.\<close>

definition absolute_url :: "pystr \<Rightarrow> bool" where
  "absolute_url s =
     (58 \<in> set s \<and> before 58 s \<noteq> [] \<and> ascii_alpha (hd s) \<and> list_all scheme_chars (before 58 s))"

text \<open>
  The three outcomes of the deployment. Nothing to commit: the file is staged and the
  status prints nothing but blanks. Success: the four commands go through, with something
  to commit. Failure: the first command that raises, with what it raised.
\<close>

definition nothing_to_commit :: "git \<Rightarrow> bool" where
  "nothing_to_commit g =
     (git_add g = Inr () \<and> (case git_status g of Inr stdout \<Rightarrow> strip stdout = [] | Inl e \<Rightarrow> False))"

definition deployed :: "git \<Rightarrow> pystr \<Rightarrow> bool" where
  "deployed g commit_message =
     (git_add g = Inr () \<and>
      (case git_status g of Inr stdout \<Rightarrow> strip stdout \<noteq> [] | Inl e \<Rightarrow> False) \<and>
      git_commit g commit_message = Inr () \<and> git_push g = Inr ())"

definition git_failure :: "git \<Rightarrow> pystr \<Rightarrow> exn option" where
  "git_failure g commit_message =
     (case git_add g of
        Inl e \<Rightarrow> Some e
      | Inr added \<Rightarrow>
          (case git_status g of
             Inl e \<Rightarrow> Some e
           | Inr stdout \<Rightarrow>
               (if strip stdout = [] then None
                else
                  (case git_commit g commit_message of
                     Inl e \<Rightarrow> Some e
                   | Inr committed \<Rightarrow>
                       (case git_push g of Inl e \<Rightarrow> Some e | Inr pushed \<Rightarrow> None)))))"

section \<open>Examples\<close>

text \<open>A server that answers every request with status 200 and the given document.\<close>

definition serve :: "soup \<Rightarrow> pystr \<Rightarrow> exn + response" where
  "serve sp url = Inr \<lparr>status_code = 200, http_error_msg = [], parsed = Inr sp\<rparr>"

definition meta_property :: "string \<Rightarrow> string \<Rightarrow> node" where
  "meta_property p c = Tag (u ''meta'') [(u ''property'', u p), (u ''content'', u c)] []"

definition meta_name :: "string \<Rightarrow> string \<Rightarrow> node" where
  "meta_name n c = Tag (u ''meta'') [(u ''name'', u n), (u ''content'', u c)] []"

definition img_src :: "string \<Rightarrow> node" where
  "img_src s = Tag (u ''img'') [(u ''src'', u s)] []"

text \<open>
  The page of the end-to-end scenario, at \<^verbatim>\<open>https://site.test/page\<close>: an \<^verbatim>\<open>og:title\<close>
  \<^verbatim>\<open>Hello\<close>, no \<^verbatim>\<open>og:description\<close>, a \<^verbatim>\<open>name="description"\<close> \<^verbatim>\<open>World\<close>, no
  \<^verbatim>\<open>og:image\<close>, and \<^verbatim>\<open><img src="/pic.png">\<close>.
\<close>

definition site_test_page :: soup where
  "site_test_page =
     [Tag (u ''html'') []
        [Tag (u ''head'') [] [meta_property ''og:title'' ''Hello'', meta_name ''description'' ''World''],
         Tag (u ''body'') [] [img_src ''/pic.png'']]]"


text \<open>
  A JSON parser on the three texts of the examples: an empty object, \<^verbatim>\<open>null\<close>, and a
  text that is not JSON.
\<close>

definition json_load_example :: "pystr \<Rightarrow> exn + (pystr \<times> pystr) list option" where
  "json_load_example text =
     (if text = u ''{}'' then Inr (Some [])
      else if text = u ''null'' then Inr None
      else Inl (Exn ValueError (u ''Expecting value: line 1 column 1 (char 0)'')))"

text \<open>
  \<^verbatim>\<open><meta property="og:title" content=""><title>Hola</title>\<close>: an \<^verbatim>\<open>og:title\<close> tag with
  an empty content beside a \<^verbatim>\<open>title\<close> element.
\<close>

definition empty_og_title_page :: soup where
  "empty_og_title_page =
     [meta_property ''og:title'' '''', Tag (u ''title'') [] [NavigableString (u ''Hola'')]]"

text \<open>\<^verbatim>\<open><meta property="og:title" content="Hello"><title>Hola</title>\<close>.\<close>

definition both_titles_page :: soup where
  "both_titles_page =
     [meta_property ''og:title'' ''Hello'', Tag (u ''title'') [] [NavigableString (u ''Hola'')]]"

text \<open>\<^verbatim>\<open><meta property="og:image" content=""><img src="b.jpg">\<close>.\<close>

definition empty_og_image_page :: soup where
  "empty_og_image_page = [meta_property ''og:image'' '''', img_src ''b.jpg'']"

text \<open>\<^verbatim>\<open><img src="b.jpg">\<close>, the page of the example at \<^verbatim>\<open>https://example.com/a/\<close>.\<close>

definition img_only_page :: soup where
  "img_only_page = [img_src ''b.jpg'']"

text \<open>\<^verbatim>\<open><meta property="og:image" content="/img.png">\<close>: a relative \<^verbatim>\<open>og:image\<close>.\<close>

definition relative_og_image_page :: soup where
  "relative_og_image_page = [meta_property ''og:image'' ''/img.png'']"



text \<open>\<^verbatim>\<open><title></title>\<close>: a \<^verbatim>\<open>title\<close> element with nothing in it.\<close>

definition empty_title_page :: soup where
  "empty_title_page = [Tag (u ''title'') [] []]"

text \<open>\<^verbatim>\<open><img src="//[">\<close>: a first image whose \<^verbatim>\<open>src\<close> \<^verbatim>\<open>urljoin\<close> rejects.\<close>

definition bad_src_page :: soup where
  "bad_src_page = [img_src ''//['']"

text \<open>A server that answers with status 300 (Multiple Choices) and the given document.\<close>

definition serve_300 :: "soup \<Rightarrow> pystr \<Rightarrow> exn + response" where
  "serve_300 sp url = Inr \<lparr>status_code = 300, http_error_msg = [], parsed = Inr sp\<rparr>"

text \<open>A server that answers with status 404.\<close>

definition serve_404 :: "pystr \<Rightarrow> exn + response" where
  "serve_404 url =
     Inr \<lparr>status_code = 404,
          http_error_msg = u ''404 Client Error: Not Found for url: '' @ url,
          parsed = Inr []\<rparr>"

text \<open>A host that refuses the connection.\<close>

definition refused :: "pystr \<Rightarrow> exn + response" where
  "refused url = Inl (Exn ConnectionError (u ''Connection refused''))"

text \<open>
  Three runs of git: one with nothing to commit (the status prints nothing), one where the
  push is rejected, and one that goes through.
\<close>

definition git_clean :: git where
  "git_clean =
     \<lparr>git_add = Inr (), git_status = Inr [], git_commit = (\<lambda>m. Inr ()), git_push = Inr ()\<rparr>"

definition git_rejected :: git where
  "git_rejected =
     \<lparr>git_add = Inr (), git_status = Inr (u ''M  index.html'' @ [10]),
      git_commit = (\<lambda>m. Inr ()),
      git_push = Inl (Exn CalledProcessError (u ''Command returned non-zero exit status 1.''))\<rparr>"

definition git_changed :: git where
  "git_changed =
     \<lparr>git_add = Inr (), git_status = Inr (u ''M  index.html'' @ [10]),
      git_commit = (\<lambda>m. Inr ()), git_push = Inr ()\<rparr>"

section \<open>Auxiliary facts\<close>

lemma falsy_iff: "falsy v \<longleftrightarrow> v = None \<or> v = Some []"
  by (simp add: falsy_def)

lemma raise_for_status_ok:
  "\<not> (400 \<le> status_code r \<and> status_code r < 600) \<Longrightarrow> raise_for_status r = Inr ()"
  by (simp add: raise_for_status_def)

lemma raise_for_status_error:
  "400 \<le> status_code r \<Longrightarrow> status_code r < 600
     \<Longrightarrow> raise_for_status r = Inl (Exn HTTPError (http_error_msg r))"
  by (simp add: raise_for_status_def)

text \<open>The body returns exactly when each of its steps does, with what the steps gave.\<close>

lemma extract_body_returns:
  assumes "http_get url = Inr r"
    and "\<not> (400 \<le> status_code r \<and> status_code r < 600)"
    and "parsed r = Inr sp"
    and "extract_title sp = Inr title"
    and "extract_img uj url sp = Inr img"
  shows "extract_body uj http_get url = Inr (title, extract_desc sp, img)"
  using assms by (simp add: extract_body_def raise_for_status_def)

lemma extract_returns:
  assumes "http_get url = Inr r"
    and "\<not> (400 \<le> status_code r \<and> status_code r < 600)"
    and "parsed r = Inr sp"
    and "extract_title sp = Inr title"
    and "extract_img uj url sp = Inr img"
  shows "MetadataExtractor_extract uj http_get url = Inr (title, extract_desc sp, img)"
  using assms by (simp add: MetadataExtractor_extract_def extract_body_def raise_for_status_def)

lemma extract_body_returned:
  assumes "extract_body uj http_get url = Inr (title, desc, img)"
  shows "\<exists>r sp. http_get url = Inr r \<and> \<not> (400 \<le> status_code r \<and> status_code r < 600) \<and>
           parsed r = Inr sp \<and> extract_title sp = Inr title \<and> desc = extract_desc sp \<and>
           extract_img uj url sp = Inr img"
  using assms
  by (auto simp: extract_body_def raise_for_status_def split: sum.splits if_splits)

lemma extract_returned:
  assumes "MetadataExtractor_extract uj http_get url = Inr (title, desc, img)"
  shows "\<exists>r sp. http_get url = Inr r \<and> \<not> (400 \<le> status_code r \<and> status_code r < 600) \<and>
           parsed r = Inr sp \<and> extract_title sp = Inr title \<and> desc = extract_desc sp \<and>
           extract_img uj url sp = Inr img"
proof -
  from assms have "extract_body uj http_get url = Inr (title, desc, img)"
    by (simp add: MetadataExtractor_extract_def split: sum.splits)
  then show ?thesis by (rule extract_body_returned)
qed

lemma extract_desc_rule: "extract_desc sp = description_rule sp"
  by (auto simp: extract_desc_def description_rule_def meta_content_def falsy_def Let_def
           split: option.splits)

lemma replace_append: "replace (xs @ ys) old new = replace xs old new @ replace ys old new"
  by (simp add: replace_def)

lemma replace_absent: "old \<notin> set s \<Longrightarrow> replace s old new = s"
  by (induction s) (auto simp: replace_def)

lemma replace_twice:
  "replace (replace s 34 (u ''&quot;'')) 39 (u ''&#39;'') = concat (map html_entity s)"
proof (induction s)
  case Nil
  show ?case by (simp add: replace_def)
next
  case (Cons c s)
  have quot: "replace (u ''&quot;'') 39 (u ''&#39;'') = u ''&quot;''"
    by (rule replace_absent) (simp add: u_def)
  have "replace (c # s) 34 (u ''&quot;'') = (if c = 34 then u ''&quot;'' else [c]) @ replace s 34 (u ''&quot;'')"
    by (simp add: replace_def)
  then have "replace (replace (c # s) 34 (u ''&quot;'')) 39 (u ''&#39;'') =
      replace (if c = 34 then u ''&quot;'' else [c]) 39 (u ''&#39;'') @ concat (map html_entity s)"
    by (simp only: replace_append Cons.IH)
  moreover have "replace (if c = 34 then u ''&quot;'' else [c]) 39 (u ''&#39;'') = html_entity c"
    using quot by (simp add: html_entity_def) (simp add: replace_def)
  ultimately show ?case by simp
qed

lemma html_entity_no_quote: "34 \<notin> set (html_entity c) \<and> 39 \<notin> set (html_entity c)"
  by (simp add: html_entity_def u_def)

lemma entities_no_quote:
  "34 \<notin> set (concat (map html_entity s)) \<and> 39 \<notin> set (concat (map html_entity s))"
  using html_entity_no_quote by auto

lemma sin_titulo_nonempty: "sin_titulo \<noteq> []"
  by (simp add: sin_titulo_def u_def)

lemma sin_descripcion_nonempty: "sin_descripcion \<noteq> []"
  by (simp add: sin_descripcion_def u_def)

lemma first_nonempty_nonempty: "d \<noteq> [] \<Longrightarrow> first_nonempty srcs d \<noteq> []"
  by (induction srcs d rule: first_nonempty.induct) auto

lemma extract_desc_nonempty: "extract_desc sp \<noteq> []"
  by (simp add: extract_desc_rule description_rule_def first_nonempty_nonempty
        sin_descripcion_nonempty)

text \<open>A non-empty \<^verbatim>\<open>og:title\<close> decides the title, whatever else the document holds.\<close>

lemma extract_title_og:
  assumes "meta_content sp (u ''property'') (u ''og:title'') = Some c" and "c \<noteq> []"
  shows "extract_title sp = Inr c"
  using assms
  by (auto simp: extract_title_def meta_content_def falsy_def Let_def split: option.splits)


lemma extract_title_nonempty: "extract_title sp = Inr title \<Longrightarrow> title \<noteq> []"
  by (auto simp: extract_title_def falsy_def Let_def sin_titulo_nonempty
           split: option.splits if_splits)

lemma extract_img_rule: "extract_img uj url sp = image_rule uj url sp"
  by (auto simp: extract_img_def image_rule_def resolved_img_def first_img_src_def
                 meta_content_def Let_def
           split: option.splits)

lemma extract_raised:
  assumes "extract_body uj http_get url = Inl e"
  shows "MetadataExtractor_extract uj http_get url =
           Inl (Exn Exception (u ''Error extrayendo metadata: '' @ msg e))"
  using assms by (simp add: MetadataExtractor_extract_def)

lemma extract_body_request_raised:
  "http_get url = Inl e \<Longrightarrow> extract_body uj http_get url = Inl e"
  by (simp add: extract_body_def)

lemma extract_body_status_raised:
  "http_get url = Inr r \<Longrightarrow> 400 \<le> status_code r \<Longrightarrow> status_code r < 600
     \<Longrightarrow> extract_body uj http_get url = Inl (Exn HTTPError (http_error_msg r))"
  by (simp add: extract_body_def raise_for_status_def)

lemma generate_html_page:
  "generate_html visible_url redirect_url title desc img =
     page visible_url redirect_url (concat (map html_entity title)) (concat (map html_entity desc)) img"
  by (simp add: generate_html_def replace_twice)

section \<open>The claims\<close>

text \<open>
  C7. For every fetched document the description is resolved by the three-tier rule: the
  \<^verbatim>\<open>og:description\<close> content, trimmed, if non-empty; otherwise the content of the
  \<^verbatim>\<open>name="description"\<close> tag, trimmed, if non-empty; otherwise the literal default. The
  description block computes the rule, every result that \<^verbatim>\<open>extract\<close> returns carries it,
  and \<^verbatim>\<open>extract\<close> returns it whenever the title and the image blocks return.
\<close>

theorem description_three_tier:
  assumes "http_get url = Inr r" and "parsed r = Inr sp"
  shows "extract_desc sp = description_rule sp \<and>
         (\<forall>title desc img.
            MetadataExtractor_extract uj http_get url = Inr (title, desc, img)
              \<longrightarrow> desc = description_rule sp) \<and>
         (\<forall>title img.
            \<not> (400 \<le> status_code r \<and> status_code r < 600) \<and> extract_title sp = Inr title \<and>
            extract_img uj url sp = Inr img
              \<longrightarrow> MetadataExtractor_extract uj http_get url = Inr (title, description_rule sp, img))"
proof (intro conjI allI impI)
  show "extract_desc sp = description_rule sp" by (rule extract_desc_rule)
next
  fix title desc img
  assume "MetadataExtractor_extract uj http_get url = Inr (title, desc, img)"
  from extract_returned [OF this] assms show "desc = description_rule sp"
    by (auto simp: extract_desc_rule)
next
  fix title img
  assume "\<not> (400 \<le> status_code r \<and> status_code r < 600) \<and> extract_title sp = Inr title \<and>
          extract_img uj url sp = Inr img"
  with assms show "MetadataExtractor_extract uj http_get url = Inr (title, description_rule sp, img)"
    using extract_returns [of http_get url r sp title uj img] by (simp add: extract_desc_rule)
qed

theorem description_three_tier_witness:
  "extract_desc site_test_page = u ''World'' \<and>
   MetadataExtractor_extract (urljoin plain_hosts) (serve site_test_page) (u ''https://site.test/page'') =
     Inr (u ''Hello'', u ''World'', u ''https://site.test/pic.png'')"
proof -
  let ?r = "\<lparr>status_code = 200, http_error_msg = [], parsed = Inr site_test_page\<rparr>"
  have served: "serve site_test_page (u ''https://site.test/page'') = Inr ?r"
    by (simp add: serve_def)
  have prs: "parsed ?r = Inr site_test_page"
    by simp
  have ok: "\<not> (400 \<le> status_code ?r \<and> status_code ?r < 600)"
    by simp
  have rule: "description_rule site_test_page = u ''World''"
    by code_simp
  have title: "extract_title site_test_page = Inr (u ''Hello'')"
    by code_simp
  have img: "extract_img (urljoin plain_hosts) (u ''https://site.test/page'') site_test_page =
      Inr (u ''https://site.test/pic.png'')"
    by code_simp
  note inst = description_three_tier
      [where http_get = "serve site_test_page" and url = "u ''https://site.test/page''"
         and sp = site_test_page and uj = "urljoin plain_hosts", OF served prs]
  from inst have "extract_desc site_test_page = description_rule site_test_page"
    by (rule conjunct1)
  then have desc: "extract_desc site_test_page = u ''World''"
    by (simp only: rule)
  from inst [THEN conjunct2, THEN conjunct2, rule_format, OF conjI [OF ok conjI [OF title img]]]
  have "MetadataExtractor_extract (urljoin plain_hosts) (serve site_test_page)
      (u ''https://site.test/page'') =
      Inr (u ''Hello'', description_rule site_test_page, u ''https://site.test/pic.png'')" .
  then have "MetadataExtractor_extract (urljoin plain_hosts) (serve site_test_page)
      (u ''https://site.test/page'') = Inr (u ''Hello'', u ''World'', u ''https://site.test/pic.png'')"
    by (simp only: rule)
  with desc show ?thesis by (rule conjI)
qed

text \<open>
  C9. For every title and description, \<^verbatim>\<open>generate_html\<close> returns a document in which
  the two strings are embedded with every double quote and every single quote replaced by
  an HTML entity and every other character as it is. The document is a fixed frame, which
  depends on the two URLs and the image only, with six holes: the text of the \<^verbatim>\<open>title\<close>
  element and the \<^verbatim>\<open>content\<close> attributes of the \<^verbatim>\<open>description\<close>, \<^verbatim>\<open>og:title\<close>,
  \<^verbatim>\<open>og:description\<close>, \<^verbatim>\<open>twitter:title\<close> and \<^verbatim>\<open>twitter:description\<close> tags. Each
  hole holds the escaped title or the escaped description, in which no quote character is
  left, and the title and the description occur nowhere else.
\<close>

theorem generate_html_escapes_quotes:
  \<open>\<exists>s0 s1 s2 s3 s4 s5 s6.
     \<forall>title desc.
       generate_html visible_url redirect_url title desc img =
         s0 @ u ''<title>'' @ concat (map html_entity title) @ u ''</title>'' @
         s1 @ u ''<meta name="description" content="'' @ concat (map html_entity desc) @ u ''">'' @
         s2 @ u ''<meta property="og:title" content="'' @ concat (map html_entity title) @ u ''">'' @
         s3 @ u ''<meta property="og:description" content="'' @ concat (map html_entity desc) @ u ''">'' @
         s4 @ u ''<meta name="twitter:title" content="'' @ concat (map html_entity title) @ u ''">'' @
         s5 @ u ''<meta name="twitter:description" content="'' @ concat (map html_entity desc) @ u ''">'' @
         s6 \<and>
       34 \<notin> set (concat (map html_entity title)) \<and> 39 \<notin> set (concat (map html_entity title)) \<and>
       34 \<notin> set (concat (map html_entity desc)) \<and> 39 \<notin> set (concat (map html_entity desc))\<close>
proof (intro exI allI conjI)
  fix title desc
  show \<open>generate_html visible_url redirect_url title desc img =
         (join 10
            [u ''<!DOCTYPE html>'',
             u ''<html lang="es">'',
             u ''<head>'',
             u ''    <meta charset="UTF-8">'',
             u ''    <meta name="viewport" content="width=device-width, initial-scale=1.0">''] @ [10] @ u ''    '') @ u ''<title>'' @ concat (map html_entity title) @ u ''</title>'' @
         ([10] @ u ''    '') @ u ''<meta name="description" content="'' @ concat (map html_entity desc) @ u ''">'' @
         ([10] @ join 10
            [u ''    '',
             u ''    <!-- Open Graph -->'',
             u ''    <meta property="og:type" content="website">'',
             u ''    <meta property="og:url" content="'' @ visible_url @ u ''">''] @ [10] @ u ''    '') @ u ''<meta property="og:title" content="'' @ concat (map html_entity title) @ u ''">'' @
         ([10] @ u ''    '') @ u ''<meta property="og:description" content="'' @ concat (map html_entity desc) @ u ''">'' @
         ([10] @ join 10
            [u ''    <meta property="og:image" content="'' @ img @ u ''">'',
             u ''    <meta property="og:image:width" content="1200">'',
             u ''    <meta property="og:image:height" content="630">'',
             u ''    '',
             u ''    <!-- Twitter Card -->'',
             u ''    <meta name="twitter:card" content="summary_large_image">''] @ [10] @ u ''    '') @ u ''<meta name="twitter:title" content="'' @ concat (map html_entity title) @ u ''">'' @
         ([10] @ u ''    '') @ u ''<meta name="twitter:description" content="'' @ concat (map html_entity desc) @ u ''">'' @
         ([10] @ join 10
            [u ''    <meta name="twitter:image" content="'' @ img @ u ''">'',
             u ''    '',
             u ''    <!-- Redirecci'' @ [243] @ u ''n -->'',
             u ''    <meta http-equiv="refresh" content="0;url='' @ redirect_url @ u ''">'',
             u ''    <script>window.location.href = "'' @ redirect_url @ u ''";</script>'',
             u ''    '',
             u ''    <style>'',
             u ''        body {'',
             u ''            margin: 0;'',
             u ''            padding: 0;'',
             u ''            font-family: -apple-system, BlinkMacSystemFont, "Segoe UI", Roboto, sans-serif;'',
             u ''            display: flex;'',
             u ''            align-items: center;'',
             u ''            justify-content: center;'',
             u ''            min-height: 100vh;'',
             u ''            background: linear-gradient(135deg, #667eea 0%, #764ba2 100%);'',
             u ''            color: white;'',
             u ''        }'',
             u ''        .container {'',
             u ''            text-align: center;'',
             u ''            padding: 2rem;'',
             u ''        }'',
             u ''        .spinner {'',
             u ''            border: 3px solid rgba(255,255,255,0.3);'',
             u ''            border-top: 3px solid white;'',
             u ''            border-radius: 50%;'',
             u ''            width: 50px;'',
             u ''            height: 50px;'',
             u ''            animation: spin 0.8s linear infinite;'',
             u ''            margin: 0 auto 1.5rem;'',
             u ''        }'',
             u ''        @keyframes spin {'',
             u ''            to { transform: rotate(360deg); }'',
             u ''        }'',
             u ''        h1 {'',
             u ''            font-size: 1.5rem;'',
             u ''            margin: 0 0 1rem;'',
             u ''            font-weight: 600;'',
             u ''        }'',
             u ''        p {'',
             u ''            opacity: 0.9;'',
             u ''            margin: 0.5rem 0;'',
             u ''        }'',
             u ''        a {'',
             u ''            color: white;'',
             u ''            text-decoration: underline;'',
             u ''        }'',
             u ''    </style>'',
             u ''</head>'',
             u ''<body>'',
             u ''    <div class="container">'',
             u ''        <div class="spinner"></div>'',
             u ''        <h1>Redirigiendo...</h1>'',
             u ''        <p>Ser'' @ [225] @ u ''s redirigido autom'' @ [225] @ u ''ticamente</p>'',
             u ''        <p><a href="'' @ redirect_url @ u ''">O haz clic aqu'' @ [237] @ u ''</a></p>'',
             u ''    </div>'',
             u ''</body>'',
             u ''</html>''])\<close>
    by (simp only: generate_html_page) (simp add: page_def u_def)
  show "34 \<notin> set (concat (map html_entity title))" "39 \<notin> set (concat (map html_entity title))"
       "34 \<notin> set (concat (map html_entity desc))" "39 \<notin> set (concat (map html_entity desc))"
    using entities_no_quote [of title] entities_no_quote [of desc] by simp_all
qed

theorem generate_html_escapes_quotes_witness:
  \<open>\<exists>s0 s1 s2 s3 s4 s5 s6.
     generate_html (u ''https://v.test/'') (u ''https://h.test/'') [34, 97, 39] [39, 34] [] =
       s0 @ u ''<title>'' @ u ''&quot;a&#39;'' @ u ''</title>'' @
       s1 @ u ''<meta name="description" content="'' @ u ''&#39;&quot;'' @ u ''">'' @
       s2 @ u ''<meta property="og:title" content="'' @ u ''&quot;a&#39;'' @ u ''">'' @
       s3 @ u ''<meta property="og:description" content="'' @ u ''&#39;&quot;'' @ u ''">'' @
       s4 @ u ''<meta name="twitter:title" content="'' @ u ''&quot;a&#39;'' @ u ''">'' @
       s5 @ u ''<meta name="twitter:description" content="'' @ u ''&#39;&quot;'' @ u ''">'' @
       s6\<close>
proof -
  have t: "concat (map html_entity [34, 97, 39]) = u ''&quot;a&#39;''"
    by code_simp
  have d: "concat (map html_entity [39, 34]) = u ''&#39;&quot;''"
    by code_simp
  from generate_html_escapes_quotes [of "u ''https://v.test/''" "u ''https://h.test/''" "[]"]
  obtain s0 s1 s2 s3 s4 s5 s6 where
    \<open>\<forall>title desc.
       generate_html (u ''https://v.test/'') (u ''https://h.test/'') title desc [] =
         s0 @ u ''<title>'' @ concat (map html_entity title) @ u ''</title>'' @
         s1 @ u ''<meta name="description" content="'' @ concat (map html_entity desc) @ u ''">'' @
         s2 @ u ''<meta property="og:title" content="'' @ concat (map html_entity title) @ u ''">'' @
         s3 @ u ''<meta property="og:description" content="'' @ concat (map html_entity desc) @ u ''">'' @
         s4 @ u ''<meta name="twitter:title" content="'' @ concat (map html_entity title) @ u ''">'' @
         s5 @ u ''<meta name="twitter:description" content="'' @ concat (map html_entity desc) @ u ''">'' @
         s6 \<and>
       34 \<notin> set (concat (map html_entity title)) \<and> 39 \<notin> set (concat (map html_entity title)) \<and>
       34 \<notin> set (concat (map html_entity desc)) \<and> 39 \<notin> set (concat (map html_entity desc))\<close>
    by (elim exE)
  from this [rule_format, of "[34, 97, 39]" "[39, 34]", THEN conjunct1]
  have \<open>generate_html (u ''https://v.test/'') (u ''https://h.test/'') [34, 97, 39] [39, 34] [] =
       s0 @ u ''<title>'' @ u ''&quot;a&#39;'' @ u ''</title>'' @
       s1 @ u ''<meta name="description" content="'' @ u ''&#39;&quot;'' @ u ''">'' @
       s2 @ u ''<meta property="og:title" content="'' @ u ''&quot;a&#39;'' @ u ''">'' @
       s3 @ u ''<meta property="og:description" content="'' @ u ''&#39;&quot;'' @ u ''">'' @
       s4 @ u ''<meta name="twitter:title" content="'' @ u ''&quot;a&#39;'' @ u ''">'' @
       s5 @ u ''<meta name="twitter:description" content="'' @ u ''&#39;&quot;'' @ u ''">'' @
       s6\<close>
    by (simp only: t d)
  then show ?thesis
    by (intro exI)
qed

text \<open>
  C10. \<^verbatim>\<open>load_config\<close> never raises: whatever the state of the file, it returns a value.
  It returns \<^verbatim>\<open>None\<close> when the file is absent, when it cannot be opened or read, and when
  its content does not parse; it returns stored pairs exactly when the file exists, can be
  read and parses to them.
\<close>

theorem load_config_never_raises:
  "(\<exists>v. load_config json_load f = Inr v) \<and>
   (load_config json_load f = Inr (Some kv)
      \<longleftrightarrow> path_exists f \<and> (\<exists>text. opened f = Inr text \<and> json_load text = Inr (Some kv))) \<and>
   (\<not> path_exists f \<longrightarrow> load_config json_load f = Inr None) \<and>
   (\<forall>e. opened f = Inl e \<longrightarrow> load_config json_load f = Inr None) \<and>
   (\<forall>text e. opened f = Inr text \<and> json_load text = Inl e
      \<longrightarrow> load_config json_load f = Inr None)"
  by (auto simp: load_config_def load_config_body_def split: sum.splits option.splits)

theorem load_config_never_raises_witness:
  "load_config json_load_example \<lparr>path_exists = True, opened = Inr (u ''{}'')\<rparr> = Inr (Some []) \<and>
   load_config json_load_example
     \<lparr>path_exists = False, opened = Inl (Exn FileNotFoundError [])\<rparr> = Inr None \<and>
   load_config json_load_example
     \<lparr>path_exists = True, opened = Inl (Exn (OtherError (u ''PermissionError'')) [])\<rparr> = Inr None \<and>
   load_config json_load_example \<lparr>path_exists = True, opened = Inr (u ''{'')\<rparr> = Inr None"
proof -
  have parse_ok: "json_load_example (u ''{}'') = Inr (Some [])"
    by (simp add: json_load_example_def)
  have parse_bad: "json_load_example (u ''{'') =
      Inl (Exn ValueError (u ''Expecting value: line 1 column 1 (char 0)''))"
    by (simp add: json_load_example_def u_def)
  show ?thesis
    using load_config_never_raises
            [of json_load_example "\<lparr>path_exists = True, opened = Inr (u ''{}'')\<rparr>" "[]"]
          load_config_never_raises
            [of json_load_example "\<lparr>path_exists = False, opened = Inl (Exn FileNotFoundError [])\<rparr>"]
          load_config_never_raises
            [of json_load_example
                "\<lparr>path_exists = True, opened = Inl (Exn (OtherError (u ''PermissionError'')) [])\<rparr>"]
          load_config_never_raises
            [of json_load_example "\<lparr>path_exists = True, opened = Inr (u ''{'')\<rparr>"]
          parse_ok parse_bad
    by simp
qed

text \<open>
  C1, as stated: for every document with an \<^verbatim>\<open>og:title\<close> tag the title is the trimmed
  content of the tag, also when the content is empty. It is not: the page
  \<^verbatim>\<open><meta property="og:title" content=""><title>Hola</title>\<close> has the tag, its trimmed
  content is empty, and the title is \<^verbatim>\<open>Hola\<close>.
\<close>

theorem og_title_counterexample:
  "meta_content empty_og_title_page (u ''property'') (u ''og:title'') = Some [] \<and>
   extract_title empty_og_title_page = Inr (u ''Hola'') \<and>
   extract_title empty_og_title_page \<noteq> Inr [] \<and>
   MetadataExtractor_extract (urljoin plain_hosts) (serve empty_og_title_page)
       (u ''https://example.com/a/'') =
     Inr (u ''Hola'', sin_descripcion, [])"
  by code_simp

text \<open>
  C1, amended: for every document with an \<^verbatim>\<open>og:title\<close> tag whose trimmed content is not
  empty, the title is that content, whether or not the document has a \<^verbatim>\<open>title\<close> element:
  the title block returns it, every result of \<^verbatim>\<open>extract\<close> carries it, and \<^verbatim>\<open>extract\<close>
  returns it whenever the image block returns.
\<close>

theorem og_title_wins_when_nonempty:
  assumes "http_get url = Inr r" and "parsed r = Inr sp"
    and "meta_content sp (u ''property'') (u ''og:title'') = Some c" and "c \<noteq> []"
  shows "extract_title sp = Inr c \<and>
         (\<forall>title desc img.
            MetadataExtractor_extract uj http_get url = Inr (title, desc, img) \<longrightarrow> title = c) \<and>
         (\<forall>img.
            \<not> (400 \<le> status_code r \<and> status_code r < 600) \<and> extract_img uj url sp = Inr img
              \<longrightarrow> MetadataExtractor_extract uj http_get url = Inr (c, extract_desc sp, img))"
proof (intro conjI allI impI)
  show title: "extract_title sp = Inr c"
    using assms(3,4) by (rule extract_title_og)
  {
    fix title desc img
    assume "MetadataExtractor_extract uj http_get url = Inr (title, desc, img)"
    from extract_returned [OF this] assms(1,2) title show "title = c"
      by auto
  }
  {
    fix img
    assume "\<not> (400 \<le> status_code r \<and> status_code r < 600) \<and> extract_img uj url sp = Inr img"
    then show "MetadataExtractor_extract uj http_get url = Inr (c, extract_desc sp, img)"
      using extract_returns [of http_get url r sp c uj img] assms(1,2) title by simp
  }
qed

theorem og_title_wins_when_nonempty_witness:
  "extract_title both_titles_page = Inr (u ''Hello'') \<and>
   MetadataExtractor_extract (urljoin plain_hosts) (serve both_titles_page)
       (u ''https://example.com/a/'') =
     Inr (u ''Hello'', extract_desc both_titles_page, [])"
proof -
  let ?r = "\<lparr>status_code = 200, http_error_msg = [], parsed = Inr both_titles_page\<rparr>"
  have served: "serve both_titles_page (u ''https://example.com/a/'') = Inr ?r"
    by (simp add: serve_def)
  have prs: "parsed ?r = Inr both_titles_page"
    by simp
  have ok: "\<not> (400 \<le> status_code ?r \<and> status_code ?r < 600)"
    by simp
  have og: "meta_content both_titles_page (u ''property'') (u ''og:title'') = Some (u ''Hello'')"
    by code_simp
  have nonempty: "u ''Hello'' \<noteq> []"
    by (simp add: u_def)
  have img: "extract_img (urljoin plain_hosts) (u ''https://example.com/a/'') both_titles_page =
      Inr []"
    by code_simp
  note inst = og_title_wins_when_nonempty
      [where http_get = "serve both_titles_page" and url = "u ''https://example.com/a/''"
         and uj = "urljoin plain_hosts", OF served prs og nonempty]
  from inst have title: "extract_title both_titles_page = Inr (u ''Hello'')"
    by (rule conjunct1)
  from inst [THEN conjunct2, THEN conjunct2, rule_format, OF conjI [OF ok img]]
  have "MetadataExtractor_extract (urljoin plain_hosts) (serve both_titles_page)
      (u ''https://example.com/a/'') = Inr (u ''Hello'', extract_desc both_titles_page, [])" .
  with title show ?thesis by (rule conjI)
qed

text \<open>
  C3, as stated: the image is the trimmed \<^verbatim>\<open>og:image\<close> content if the tag is present. It is
  not: at \<^verbatim>\<open>https://example.com/a/\<close> the page
  \<^verbatim>\<open><meta property="og:image" content=""><img src="b.jpg">\<close> has the tag, its trimmed
  content is empty, and the image is \<^verbatim>\<open>https://example.com/a/b.jpg\<close>.
\<close>

theorem og_image_counterexample:
  "meta_content empty_og_image_page (u ''property'') (u ''og:image'') = Some [] \<and>
   extract_img (urljoin plain_hosts) (u ''https://example.com/a/'') empty_og_image_page =
     Inr (u ''https://example.com/a/b.jpg'') \<and>
   MetadataExtractor_extract (urljoin plain_hosts) (serve empty_og_image_page)
       (u ''https://example.com/a/'') =
     Inr (sin_titulo, sin_descripcion, u ''https://example.com/a/b.jpg'')"
  by code_simp

text \<open>
  C3, amended: for every fetched document the image is the trimmed \<^verbatim>\<open>og:image\<close> content if
  the tag is present and that content is not empty; otherwise the \<^verbatim>\<open>src\<close> of the first
  \<^verbatim>\<open>img\<close> element, if it has a non-empty one, resolved against the URL of the page by
  \<^verbatim>\<open>urljoin\<close>; otherwise the empty string. The image block computes the rule (and raises
  when \<^verbatim>\<open>urljoin\<close> does), and every result that \<^verbatim>\<open>extract\<close> returns carries its value.
\<close>

theorem image_three_tier:
  assumes "http_get url = Inr r" and "parsed r = Inr sp"
  shows "extract_img uj url sp = image_rule uj url sp \<and>
         (\<forall>title desc img.
            MetadataExtractor_extract uj http_get url = Inr (title, desc, img)
              \<longrightarrow> image_rule uj url sp = Inr img) \<and>
         (\<forall>title img.
            \<not> (400 \<le> status_code r \<and> status_code r < 600) \<and> extract_title sp = Inr title \<and>
            image_rule uj url sp = Inr img
              \<longrightarrow> MetadataExtractor_extract uj http_get url = Inr (title, extract_desc sp, img))"
proof (intro conjI allI impI)
  show "extract_img uj url sp = image_rule uj url sp"
    by (rule extract_img_rule)
  {
    fix title desc img
    assume "MetadataExtractor_extract uj http_get url = Inr (title, desc, img)"
    from extract_returned [OF this] assms show "image_rule uj url sp = Inr img"
      by (auto simp: extract_img_rule)
  }
  {
    fix title img
    assume "\<not> (400 \<le> status_code r \<and> status_code r < 600) \<and> extract_title sp = Inr title \<and>
            image_rule uj url sp = Inr img"
    then show "MetadataExtractor_extract uj http_get url = Inr (title, extract_desc sp, img)"
      using extract_returns [of http_get url r sp title uj img] assms
      by (simp add: extract_img_rule)
  }
qed

theorem image_three_tier_witness:
  "extract_img (urljoin plain_hosts) (u ''https://example.com/a/'') img_only_page =
     Inr (u ''https://example.com/a/b.jpg'') \<and>
   MetadataExtractor_extract (urljoin plain_hosts) (serve img_only_page)
       (u ''https://example.com/a/'') =
     Inr (sin_titulo, extract_desc img_only_page, u ''https://example.com/a/b.jpg'')"
proof -
  let ?r = "\<lparr>status_code = 200, http_error_msg = [], parsed = Inr img_only_page\<rparr>"
  have served: "serve img_only_page (u ''https://example.com/a/'') = Inr ?r"
    by (simp add: serve_def)
  have prs: "parsed ?r = Inr img_only_page"
    by simp
  have ok: "\<not> (400 \<le> status_code ?r \<and> status_code ?r < 600)"
    by simp
  have rule: "image_rule (urljoin plain_hosts) (u ''https://example.com/a/'') img_only_page =
      Inr (u ''https://example.com/a/b.jpg'')"
    by code_simp
  have title: "extract_title img_only_page = Inr sin_titulo"
    by code_simp
  note inst = image_three_tier
      [where http_get = "serve img_only_page" and url = "u ''https://example.com/a/''"
         and uj = "urljoin plain_hosts", OF served prs]
  from inst
  have "extract_img (urljoin plain_hosts) (u ''https://example.com/a/'') img_only_page =
      image_rule (urljoin plain_hosts) (u ''https://example.com/a/'') img_only_page"
    by (rule conjunct1)
  then have img: "extract_img (urljoin plain_hosts) (u ''https://example.com/a/'') img_only_page =
      Inr (u ''https://example.com/a/b.jpg'')"
    by (simp only: rule)
  from inst [THEN conjunct2, THEN conjunct2, rule_format, OF conjI [OF ok conjI [OF title rule]]]
  have "MetadataExtractor_extract (urljoin plain_hosts) (serve img_only_page)
      (u ''https://example.com/a/'') =
      Inr (sin_titulo, extract_desc img_only_page, u ''https://example.com/a/b.jpg'')" .
  with img show ?thesis by (rule conjI)
qed

text \<open>
  C4, as stated: in every returned result the image is empty or an absolute URL. It is not:
  for the page \<^verbatim>\<open><meta property="og:image" content="/img.png">\<close> the image is
  \<^verbatim>\<open>/img.png\<close>, which is neither.
\<close>

theorem result_invariant_counterexample:
  "MetadataExtractor_extract (urljoin plain_hosts) (serve relative_og_image_page)
       (u ''https://example.com/a/'') =
     Inr (sin_titulo, sin_descripcion, u ''/img.png'') \<and>
   u ''/img.png'' \<noteq> [] \<and> \<not> absolute_url (u ''/img.png'')"
  by code_simp

text \<open>
  C4, amended: in every returned result the title and the description are non-empty, and
  the image is the empty string, or the trimmed \<^verbatim>\<open>og:image\<close> content as the page gives it
  (not resolved, so possibly relative), or what \<^verbatim>\<open>urljoin\<close> returns for the URL of the
  page and the non-empty \<^verbatim>\<open>src\<close> of the first \<^verbatim>\<open>img\<close> element.
\<close>

theorem result_invariant:
  assumes "http_get url = Inr r" and "parsed r = Inr sp"
    and "MetadataExtractor_extract uj http_get url = Inr (title, desc, img)"
  shows "title \<noteq> [] \<and> desc \<noteq> [] \<and>
         (img = [] \<or>
          meta_content sp (u ''property'') (u ''og:image'') = Some img \<or>
          (\<exists>src. first_img_src sp = Some src \<and> src \<noteq> [] \<and> uj url src = Inr img))"
proof -
  from extract_returned [OF assms(3)] assms(1,2)
  have title: "extract_title sp = Inr title" and desc: "desc = extract_desc sp"
    and img: "image_rule uj url sp = Inr img"
    by (auto simp: extract_img_rule)
  from title have "title \<noteq> []" by (rule extract_title_nonempty)
  moreover from desc have "desc \<noteq> []" by (simp add: extract_desc_nonempty)
  moreover from img
  have "img = [] \<or> meta_content sp (u ''property'') (u ''og:image'') = Some img \<or>
        (\<exists>src. first_img_src sp = Some src \<and> src \<noteq> [] \<and> uj url src = Inr img)"
    by (auto simp: image_rule_def resolved_img_def split: option.splits if_splits)
  ultimately show ?thesis by simp
qed

theorem result_invariant_witness:
  "u ''Hello'' \<noteq> [] \<and> u ''World'' \<noteq> [] \<and>
   (u ''https://site.test/pic.png'' = [] \<or>
    meta_content site_test_page (u ''property'') (u ''og:image'') =
      Some (u ''https://site.test/pic.png'') \<or>
    (\<exists>src. first_img_src site_test_page = Some src \<and> src \<noteq> [] \<and>
       urljoin plain_hosts (u ''https://site.test/page'') src = Inr (u ''https://site.test/pic.png'')))"
proof -
  let ?r = "\<lparr>status_code = 200, http_error_msg = [], parsed = Inr site_test_page\<rparr>"
  have served: "serve site_test_page (u ''https://site.test/page'') = Inr ?r"
    by (simp add: serve_def)
  have prs: "parsed ?r = Inr site_test_page"
    by simp
  have returned: "MetadataExtractor_extract (urljoin plain_hosts) (serve site_test_page)
      (u ''https://site.test/page'') =
      Inr (u ''Hello'', u ''World'', u ''https://site.test/pic.png'')"
    by code_simp
  show ?thesis
    by (rule result_invariant
          [where http_get = "serve site_test_page" and url = "u ''https://site.test/page''",
           OF served prs returned])
qed




text \<open>
  C2, as stated: \<^verbatim>\<open>extract\<close> fails if and only if the fetch fails, a non-2xx status being a
  failed fetch. Neither direction holds. \<^verbatim>\<open>raise_for_status\<close> raises for the statuses 400
  to 599 only, so a response of status 300 with an empty body yields the default-filled
  result; and a response of status 200 whose first image is \<^verbatim>\<open><img src="//[">\<close> makes
  \<^verbatim>\<open>urljoin\<close> raise, so \<^verbatim>\<open>extract\<close> fails on a document that was fetched.
\<close>

theorem fetch_failure_counterexample:
  "MetadataExtractor_extract (urljoin plain_hosts) (serve_300 []) (u ''https://example.com/a/'') =
     Inr (sin_titulo, sin_descripcion, []) \<and>
   MetadataExtractor_extract (urljoin plain_hosts) (serve bad_src_page) (u ''https://example.com/a/'') =
     Inl (Exn Exception (u ''Error extrayendo metadata: Invalid IPv6 URL''))"
  by code_simp

text \<open>
  C2, amended: \<^verbatim>\<open>extract\<close> fails whenever \<^verbatim>\<open>requests.get\<close> raises (no connection, a
  time-out) and whenever the status of the response is between 400 and 599; a response of
  any other status is not a failed fetch. For such a response whose body parses and whose
  title and image blocks raise nothing, it returns a complete result, the description
  filled by its rule, with a non-empty title and a non-empty description.
\<close>

theorem fetch_failure_fails_and_fetched_returns:
  "(\<forall>e. http_get url = Inl e
      \<longrightarrow> MetadataExtractor_extract uj http_get url =
            Inl (Exn Exception (u ''Error extrayendo metadata: '' @ msg e))) \<and>
   (\<forall>r. http_get url = Inr r \<and> 400 \<le> status_code r \<and> status_code r < 600
      \<longrightarrow> MetadataExtractor_extract uj http_get url =
            Inl (Exn Exception (u ''Error extrayendo metadata: '' @ http_error_msg r))) \<and>
   (\<forall>r sp title img.
      http_get url = Inr r \<and> \<not> (400 \<le> status_code r \<and> status_code r < 600) \<and>
      parsed r = Inr sp \<and> extract_title sp = Inr title \<and> extract_img uj url sp = Inr img
      \<longrightarrow> MetadataExtractor_extract uj http_get url = Inr (title, description_rule sp, img) \<and>
          title \<noteq> [] \<and> description_rule sp \<noteq> [])"
proof (intro conjI allI impI)
  fix e
  assume "http_get url = Inl e"
  then have "extract_body uj http_get url = Inl e"
    by (rule extract_body_request_raised)
  then show "MetadataExtractor_extract uj http_get url =
      Inl (Exn Exception (u ''Error extrayendo metadata: '' @ msg e))"
    by (rule extract_raised)
next
  fix r
  assume "http_get url = Inr r \<and> 400 \<le> status_code r \<and> status_code r < 600"
  then have "extract_body uj http_get url = Inl (Exn HTTPError (http_error_msg r))"
    by (simp add: extract_body_status_raised)
  from extract_raised [OF this]
  show "MetadataExtractor_extract uj http_get url =
      Inl (Exn Exception (u ''Error extrayendo metadata: '' @ http_error_msg r))"
    by simp
next
  fix r sp title img
  assume a: "http_get url = Inr r \<and> \<not> (400 \<le> status_code r \<and> status_code r < 600) \<and>
      parsed r = Inr sp \<and> extract_title sp = Inr title \<and> extract_img uj url sp = Inr img"
  then have "MetadataExtractor_extract uj http_get url = Inr (title, extract_desc sp, img)"
    using extract_returns [of http_get url r sp title uj img] by simp
  then show "MetadataExtractor_extract uj http_get url = Inr (title, description_rule sp, img)"
    by (simp add: extract_desc_rule)
  from a have "extract_title sp = Inr title"
    by simp
  then show "title \<noteq> []"
    by (rule extract_title_nonempty)
  from extract_desc_nonempty [of sp] show "description_rule sp \<noteq> []"
    by (simp add: extract_desc_rule)
qed

theorem fetch_failure_fails_and_fetched_returns_witness:
  "MetadataExtractor_extract (urljoin plain_hosts) refused (u ''https://example.com/a/'') =
     Inl (Exn Exception (u ''Error extrayendo metadata: Connection refused'')) \<and>
   MetadataExtractor_extract (urljoin plain_hosts) serve_404 (u ''https://example.com/a/'') =
     Inl (Exn Exception
       (u ''Error extrayendo metadata: 404 Client Error: Not Found for url: https://example.com/a/'')) \<and>
   MetadataExtractor_extract (urljoin plain_hosts) (serve_300 site_test_page)
       (u ''https://site.test/page'') =
     Inr (u ''Hello'', u ''World'', u ''https://site.test/pic.png'')"
proof -
  have refused: "refused (u ''https://example.com/a/'') =
      Inl (Exn ConnectionError (u ''Connection refused''))"
    by (simp add: refused_def)
  from fetch_failure_fails_and_fetched_returns
         [where http_get = refused and url = "u ''https://example.com/a/''"
            and uj = "urljoin plain_hosts", THEN conjunct1, rule_format, OF refused]
  have "MetadataExtractor_extract (urljoin plain_hosts) refused (u ''https://example.com/a/'') =
      Inl (Exn Exception
        (u ''Error extrayendo metadata: '' @ msg (Exn ConnectionError (u ''Connection refused''))))" .
  moreover have "u ''Error extrayendo metadata: '' @ msg (Exn ConnectionError (u ''Connection refused'')) =
      u ''Error extrayendo metadata: Connection refused''"
    by code_simp
  ultimately have first: "MetadataExtractor_extract (urljoin plain_hosts) refused
      (u ''https://example.com/a/'') =
      Inl (Exn Exception (u ''Error extrayendo metadata: Connection refused''))"
    by (simp only:)
  let ?r404 = "\<lparr>status_code = 404,
      http_error_msg = u ''404 Client Error: Not Found for url: '' @ u ''https://example.com/a/'',
      parsed = Inr []\<rparr>"
  have s404: "serve_404 (u ''https://example.com/a/'') = Inr ?r404"
    by (simp add: serve_404_def)
  have is404: "400 \<le> status_code ?r404 \<and> status_code ?r404 < 600"
    by simp
  from fetch_failure_fails_and_fetched_returns
         [where http_get = serve_404 and url = "u ''https://example.com/a/''"
            and uj = "urljoin plain_hosts", THEN conjunct2, THEN conjunct1, rule_format,
          OF conjI [OF s404 is404]]
  have "MetadataExtractor_extract (urljoin plain_hosts) serve_404 (u ''https://example.com/a/'') =
      Inl (Exn Exception (u ''Error extrayendo metadata: '' @ http_error_msg ?r404))" .
  moreover have "u ''Error extrayendo metadata: '' @ http_error_msg ?r404 =
      u ''Error extrayendo metadata: 404 Client Error: Not Found for url: https://example.com/a/''"
    by code_simp
  ultimately have second: "MetadataExtractor_extract (urljoin plain_hosts) serve_404
      (u ''https://example.com/a/'') =
      Inl (Exn Exception
        (u ''Error extrayendo metadata: 404 Client Error: Not Found for url: https://example.com/a/''))"
    by (simp only:)
  let ?r300 = "\<lparr>status_code = 300, http_error_msg = [], parsed = Inr site_test_page\<rparr>"
  have s300: "serve_300 site_test_page (u ''https://site.test/page'') = Inr ?r300"
    by (simp add: serve_300_def)
  have not_error: "\<not> (400 \<le> status_code ?r300 \<and> status_code ?r300 < 600)"
    by simp
  have prs: "parsed ?r300 = Inr site_test_page"
    by simp
  have title: "extract_title site_test_page = Inr (u ''Hello'')"
    by code_simp
  have img: "extract_img (urljoin plain_hosts) (u ''https://site.test/page'') site_test_page =
      Inr (u ''https://site.test/pic.png'')"
    by code_simp
  have rule: "description_rule site_test_page = u ''World''"
    by code_simp
  from fetch_failure_fails_and_fetched_returns
         [where http_get = "serve_300 site_test_page" and url = "u ''https://site.test/page''"
            and uj = "urljoin plain_hosts", THEN conjunct2, THEN conjunct2, rule_format,
          OF conjI [OF s300 conjI [OF not_error conjI [OF prs conjI [OF title img]]]],
          THEN conjunct1]
  have "MetadataExtractor_extract (urljoin plain_hosts) (serve_300 site_test_page)
      (u ''https://site.test/page'') =
      Inr (u ''Hello'', description_rule site_test_page, u ''https://site.test/pic.png'')" .
  then have third: "MetadataExtractor_extract (urljoin plain_hosts) (serve_300 site_test_page)
      (u ''https://site.test/page'') = Inr (u ''Hello'', u ''World'', u ''https://site.test/pic.png'')"
    by (simp only: rule)
  from first second third show ?thesis by (intro conjI)
qed

text \<open>
  C5, as stated: a failed fetch and a fault of the extraction raise two error kinds that a
  caller can tell apart. They do not: a refused connection and the page \<^verbatim>\<open><title></title>\<close>
  (whose \<^verbatim>\<open>soup.title.string\<close> is \<^verbatim>\<open>None\<close>) both leave \<^verbatim>\<open>extract\<close> as an exception of
  the one class \<^verbatim>\<open>Exception\<close>.
\<close>

theorem error_kinds_counterexample:
  "MetadataExtractor_extract (urljoin plain_hosts) refused (u ''https://example.com/a/'') =
     Inl (Exn Exception (u ''Error extrayendo metadata: Connection refused'')) \<and>
   MetadataExtractor_extract (urljoin plain_hosts) (serve empty_title_page)
       (u ''https://example.com/a/'') =
     Inl (Exn Exception (u ''Error extrayendo metadata: '' @ msg none_has_no_strip))"
  by code_simp

text \<open>
  C5, amended: \<^verbatim>\<open>extract\<close> raises one error kind. Every failure, of the fetch or of the
  extraction, leaves as a plain \<^verbatim>\<open>Exception\<close>; the class of the original error is not kept,
  and its text follows the fixed prefix in the message.
\<close>

theorem every_failure_is_plain_exception:
  assumes "MetadataExtractor_extract uj http_get url = Inl e"
  shows "cls e = Exception \<and>
         (\<exists>e'. extract_body uj http_get url = Inl e' \<and>
                msg e = u ''Error extrayendo metadata: '' @ msg e')"
  using assms by (auto simp: MetadataExtractor_extract_def split: sum.splits)

theorem every_failure_is_plain_exception_witness:
  "cls (Exn Exception
          (u ''Error extrayendo metadata: 404 Client Error: Not Found for url: https://example.com/a/'')) =
     Exception \<and>
   (\<exists>e'. extract_body (urljoin plain_hosts) serve_404 (u ''https://example.com/a/'') = Inl e' \<and>
          msg (Exn Exception
                 (u ''Error extrayendo metadata: 404 Client Error: Not Found for url: https://example.com/a/'')) =
            u ''Error extrayendo metadata: '' @ msg e')"
proof -
  have raised: "MetadataExtractor_extract (urljoin plain_hosts) serve_404 (u ''https://example.com/a/'') =
      Inl (Exn Exception
        (u ''Error extrayendo metadata: 404 Client Error: Not Found for url: https://example.com/a/''))"
    by code_simp
  from every_failure_is_plain_exception [OF raised] show ?thesis
    by simp
qed

text \<open>
  C8, as stated: the caller of \<^verbatim>\<open>git_push_to_github\<close> can tell "nothing to commit" from a
  failure. It cannot: the function returns \<^verbatim>\<open>False\<close> when there is nothing to commit and
  \<^verbatim>\<open>False\<close> when the push is rejected.
\<close>

theorem deployment_outcomes_counterexample:
  "nothing_to_commit git_clean \<and>
   snd (git_push_to_github git_clean (u ''Actualizar link preview'')) = Inr False \<and>
   git_failure git_rejected (u ''Actualizar link preview'') =
     Some (Exn CalledProcessError (u ''Command returned non-zero exit status 1.'')) \<and>
   snd (git_push_to_github git_rejected (u ''Actualizar link preview'')) = Inr False"
  by code_simp

text \<open>
  C8, amended: \<^verbatim>\<open>git_push_to_github\<close> reports two outcomes to its caller. It returns
  \<^verbatim>\<open>True\<close> exactly when the four git commands go through with something to commit. It
  returns \<^verbatim>\<open>False\<close> both when there is nothing to commit and when a git command fails with
  \<^verbatim>\<open>CalledProcessError\<close>; the two differ only in what is printed, a warning in the first
  case and the error with the advice in the second. Any other exception of a git command
  leaves the function.
\<close>

theorem deployment_returns_a_boolean:
  "(snd (git_push_to_github g commit_message) = Inr True \<longleftrightarrow> deployed g commit_message) \<and>
   (deployed g commit_message
      \<longrightarrow> git_push_to_github g commit_message = (subiendo # subido, Inr True)) \<and>
   (nothing_to_commit g
      \<longrightarrow> git_push_to_github g commit_message = ([subiendo, no_hay_cambios], Inr False)) \<and>
   (\<forall>e. git_failure g commit_message = Some e \<and> cls e = CalledProcessError
      \<longrightarrow> git_push_to_github g commit_message = (subiendo # error_con_git e, Inr False)) \<and>
   (\<forall>e. git_failure g commit_message = Some e \<and> cls e \<noteq> CalledProcessError
      \<longrightarrow> git_push_to_github g commit_message = ([subiendo], Inl e))"
  by (auto simp: git_push_to_github_def git_error_def deployed_def nothing_to_commit_def
                 git_failure_def Let_def
           split: sum.splits if_splits)

theorem deployment_returns_a_boolean_witness:
  "git_push_to_github git_changed (u ''Actualizar link preview'') = (subiendo # subido, Inr True) \<and>
   git_push_to_github git_clean (u ''Actualizar link preview'') =
     ([subiendo, no_hay_cambios], Inr False) \<and>
   git_push_to_github git_rejected (u ''Actualizar link preview'') =
     (subiendo #
        error_con_git (Exn CalledProcessError (u ''Command returned non-zero exit status 1.'')),
      Inr False)"
proof -
  note inst = deployment_returns_a_boolean [where commit_message = "u ''Actualizar link preview''"]
  have d: "deployed git_changed (u ''Actualizar link preview'')"
    by code_simp
  have n: "nothing_to_commit git_clean"
    by code_simp
  have f: "git_failure git_rejected (u ''Actualizar link preview'') =
      Some (Exn CalledProcessError (u ''Command returned non-zero exit status 1.''))"
    by code_simp
  have c: "cls (Exn CalledProcessError (u ''Command returned non-zero exit status 1.'')) =
      CalledProcessError"
    by simp
  from inst [where g = git_changed, THEN conjunct2, THEN conjunct1, rule_format, OF d]
       inst [where g = git_clean, THEN conjunct2, THEN conjunct2, THEN conjunct1, rule_format, OF n]
       inst [where g = git_rejected, THEN conjunct2, THEN conjunct2, THEN conjunct2, THEN conjunct1,
             rule_format, OF conjI [OF f c]]
  show ?thesis by (intro conjI)
qed

end
